theory Spec2Isabelle
  imports Complex_Main "HOL-Library.AList"
begin

section \<open>Python values\<close>

text \<open>
  Candidate records are JSON objects decoded into Python dictionaries. A value is
  \<^verbatim>\<open>None\<close>, a boolean, a number, a string, a list or a dictionary with string keys.
  Python's \<^verbatim>\<open>int\<close> and \<^verbatim>\<open>float\<close> are both embedded as exact real numbers
  (\<^verbatim>\<open>1 == 1.0\<close> and both hash alike, so they are one dictionary key). The rounding of
  IEEE-754 doubles, infinities, \<^verbatim>\<open>nan\<close> and the \<^verbatim>\<open>OverflowError\<close> of a too large
  \<^verbatim>\<open>int\<close> are not part of the embedding: the value of a score is exact here where the
  code rounds it (\<open>0.54 + 0.4\<close> is \<open>0.94\<close> here and \<^verbatim>\<open>0.9400000000000001\<close> in doubles).
  The properties of fusion proved below are about which records are stored, under which ids
  and with which fields; none of them depends on the numeric value of a composite score.
  A dictionary is an association list in
  insertion order, read with \<open>map_of\<close> and written with \<open>AList.update\<close>, which
  overwrites in place or appends, as Python's dictionaries do.
\<close>

datatype pyval =
    PNone
  | PBool bool
  | PNum real
  | PStr string
  | PList "pyval list"
  | PDict "(string \<times> pyval) list"

type_synonym pydict = "(string \<times> pyval) list"

datatype py_error = TypeError | KeyError | AttributeError | RuntimeError

text \<open>\<^verbatim>\<open>d.get(k, default)\<close>\<close>

definition dict_get :: "pydict \<Rightarrow> string \<Rightarrow> pyval \<Rightarrow> pyval" where
  "dict_get d k dflt = (case map_of d k of None \<Rightarrow> dflt | Some v \<Rightarrow> v)"

text \<open>Truth value testing: \<^verbatim>\<open>None\<close>, \<^verbatim>\<open>False\<close>, zero and empty containers are false.\<close>

fun truthy :: "pyval \<Rightarrow> bool" where
  "truthy PNone = False"
| "truthy (PBool b) = b"
| "truthy (PNum x) = (x \<noteq> 0)"
| "truthy (PStr s) = (s \<noteq> [])"
| "truthy (PList xs) = (xs \<noteq> [])"
| "truthy (PDict d) = (d \<noteq> [])"

text \<open>\<^verbatim>\<open>a or b\<close>\<close>

definition py_or :: "pyval \<Rightarrow> pyval \<Rightarrow> pyval" where
  "py_or a b = (if truthy a then a else b)"

text \<open>
  \<^verbatim>\<open>v * w\<close> for a float \<open>w\<close>: defined on numbers and booleans, a \<^verbatim>\<open>TypeError\<close> on
  \<^verbatim>\<open>None\<close>, strings, lists and dictionaries.
\<close>

fun py_mul_float :: "pyval \<Rightarrow> real \<Rightarrow> py_error + real" where
  "py_mul_float (PNum x) w = Inr (x * w)"
| "py_mul_float (PBool b) w = Inr (of_bool b * w)"
| "py_mul_float _ w = Inl TypeError"

text \<open>\<^verbatim>\<open>v + x\<close> for a float \<open>x\<close>.\<close>

fun py_add_float :: "pyval \<Rightarrow> real \<Rightarrow> py_error + real" where
  "py_add_float (PNum y) x = Inr (y + x)"
| "py_add_float (PBool b) x = Inr (of_bool b + x)"
| "py_add_float _ x = Inl TypeError"

text \<open>
  Using a value as a dictionary key: lists and dictionaries are unhashable; \<^verbatim>\<open>True\<close> and
  \<^verbatim>\<open>False\<close> are the keys \<^verbatim>\<open>1\<close> and \<^verbatim>\<open>0\<close>.
\<close>

fun hash_key :: "pyval \<Rightarrow> py_error + pyval" where
  "hash_key (PList xs) = Inl TypeError"
| "hash_key (PDict d) = Inl TypeError"
| "hash_key (PBool b) = Inr (PNum (of_bool b))"
| "hash_key v = Inr v"

text \<open>\<^verbatim>\<open>str(n)\<close> for a non-negative integer, as an f-string formats it.\<close>

definition digit_char :: "nat \<Rightarrow> char" where
  "digit_char d = ''0123456789'' ! d"

function str_nat :: "nat \<Rightarrow> string" where
  "str_nat n = (if n < 10 then [digit_char n] else str_nat (n div 10) @ [digit_char (n mod 10)])"
  by pat_completeness auto
termination
  by (relation "measure id") auto

declare str_nat.simps [simp del]

section \<open>Result fusion (\<^verbatim>\<open>fuse_results\<close>, agents.py)\<close>

text \<open>
  \<^verbatim>\<open>combined: Dict[str, dict]\<close> maps a document id to the fused record; its insertion
  order is the order of \<^verbatim>\<open>combined.values()\<close>.
\<close>

type_synonym combined = "(pyval \<times> pydict) list"

text \<open>
  \<^verbatim>\<open>doc_id = res.get("id") or res.get("_id") or f"vec_{len(combined)}"\<close>
\<close>

definition vec_doc_id :: "combined \<Rightarrow> pydict \<Rightarrow> pyval" where
  "vec_doc_id cmb res =
     py_or (dict_get res ''id'' PNone)
       (py_or (dict_get res ''_id'' PNone) (PStr (''vec_'' @ str_nat (length cmb))))"

text \<open>
  \<^verbatim>\<open>doc_id = res.get("_id") or res.get("id") or f"ks_{len(combined)}"\<close>
\<close>

definition ks_doc_id :: "combined \<Rightarrow> pydict \<Rightarrow> pyval" where
  "ks_doc_id cmb res =
     py_or (dict_get res ''_id'' PNone)
       (py_or (dict_get res ''id'' PNone) (PStr (''ks_'' @ str_nat (length cmb))))"

text \<open>
  One iteration of the first loop. A result that is not a dictionary is skipped.
  \<^verbatim>\<open>combined[doc_id] = {**res, "final_score": res.get("similarity", 0) * 0.6}\<close>
\<close>

definition vec_step :: "combined \<Rightarrow> pyval \<Rightarrow> py_error + combined" where
  "vec_step cmb r =
     (case r of
        PDict res \<Rightarrow>
          (case py_mul_float (dict_get res ''similarity'' (PNum 0)) 0.6 of
             Inl e \<Rightarrow> Inl e
           | Inr s \<Rightarrow>
               (case hash_key (vec_doc_id cmb res) of
                  Inl e \<Rightarrow> Inl e
                | Inr k \<Rightarrow> Inr (AList.update k (AList.update ''final_score'' (PNum s) res) cmb)))
      | _ \<Rightarrow> Inr cmb)"

text \<open>
  One iteration of the second loop: an id already in \<^verbatim>\<open>combined\<close> only has its
  \<^verbatim>\<open>final_score\<close> increased; a new id stores the record.
\<close>

definition ks_step :: "combined \<Rightarrow> pyval \<Rightarrow> py_error + combined" where
  "ks_step cmb r =
     (case r of
        PDict res \<Rightarrow>
          (case hash_key (ks_doc_id cmb res) of
             Inl e \<Rightarrow> Inl e
           | Inr k \<Rightarrow>
               (case map_of cmb k of
                  Some old \<Rightarrow>
                    (case map_of old ''final_score'' of
                       None \<Rightarrow> Inl KeyError
                     | Some cur \<Rightarrow>
                         (case py_mul_float (dict_get res ''_score'' (PNum 0)) 0.4 of
                            Inl e \<Rightarrow> Inl e
                          | Inr s \<Rightarrow>
                              (case py_add_float cur s of
                                 Inl e \<Rightarrow> Inl e
                               | Inr t \<Rightarrow>
                                   Inr (AList.update k
                                          (AList.update ''final_score'' (PNum t) old) cmb))))
                | None \<Rightarrow>
                    (case py_mul_float (dict_get res ''_score'' (PNum 0)) 0.4 of
                       Inl e \<Rightarrow> Inl e
                     | Inr s \<Rightarrow>
                         Inr (AList.update k (AList.update ''final_score'' (PNum s) res) cmb))))
      | _ \<Rightarrow> Inr cmb)"

text \<open>The two \<^verbatim>\<open>for\<close> loops; an exception leaves the loop.\<close>

fun vec_loop :: "combined \<Rightarrow> pyval list \<Rightarrow> py_error + combined" where
  "vec_loop cmb [] = Inr cmb"
| "vec_loop cmb (r # rs) =
     (case vec_step cmb r of Inl e \<Rightarrow> Inl e | Inr cmb' \<Rightarrow> vec_loop cmb' rs)"

fun ks_loop :: "combined \<Rightarrow> pyval list \<Rightarrow> py_error + combined" where
  "ks_loop cmb [] = Inr cmb"
| "ks_loop cmb (r # rs) =
     (case ks_step cmb r of Inl e \<Rightarrow> Inl e | Inr cmb' \<Rightarrow> ks_loop cmb' rs)"

text \<open>The dictionary \<^verbatim>\<open>combined\<close> when both loops are done.\<close>

definition fuse_combined :: "pyval list \<Rightarrow> pyval list \<Rightarrow> py_error + combined" where
  "fuse_combined ks vs =
     (case vec_loop [] vs of Inl e \<Rightarrow> Inl e | Inr cmb \<Rightarrow> ks_loop cmb ks)"

text \<open>
  The sort key \<^verbatim>\<open>x.get("final_score", 0)\<close>. Both loops store a number under
  \<^verbatim>\<open>final_score\<close> in every record they put into \<^verbatim>\<open>combined\<close> (or raise), so the other
  cases of the key are never compared.
\<close>

definition final_score :: "pydict \<Rightarrow> real" where
  "final_score x =
     (case dict_get x ''final_score'' (PNum 0) of
        PNum s \<Rightarrow> s | PBool b \<Rightarrow> of_bool b | _ \<Rightarrow> 0)"

text \<open>
  \<^verbatim>\<open>sorted(xs, key=..., reverse=True)\<close>: descending and stable, records of equal score
  keep their order.
\<close>

definition sorted_desc :: "('a \<Rightarrow> real) \<Rightarrow> 'a list \<Rightarrow> 'a list" where
  "sorted_desc f xs = sort_key (\<lambda>x. - f x) xs"

record agent_state =
  session_id :: string
  query :: string
  history :: "string list"
  keywords_f :: "string list"
  effective_query :: string
  intents :: "string list"
  ks_results :: "pyval list"
  vector_results :: "pyval list"
  final_results :: "pydict list"
  all_results :: "pydict list"
  start_number :: nat
  previous_text :: string
  final_response :: string

definition fuse_results :: "agent_state \<Rightarrow> py_error + agent_state" where
  "fuse_results state =
     (case fuse_combined (ks_results state) (vector_results state) of
        Inl e \<Rightarrow> Inl e
      | Inr cmb \<Rightarrow>
          (let all_sorted = sorted_desc final_score (map snd cmb);
               page_size = 15
           in Inr (state\<lparr>all_results := all_sorted,
                          final_results := take page_size all_sorted\<rparr>)))"



section \<open>Continuation requests (\<^verbatim>\<open>_is_more_query\<close>, agents.py)\<close>

text \<open>
  A query is a string of characters with code points \<open>0\<close> to \<open>255\<close> (type \<open>char\<close>).
  \<^verbatim>\<open>str.strip\<close>, \<^verbatim>\<open>str.lower\<close> and the regular-expression classes \<^verbatim>\<open>\s\<close>, \<^verbatim>\<open>\d\<close>
  and \<^verbatim>\<open>\w\<close> are Python's Unicode versions on this range: white space includes
  \<^verbatim>\<open>\x1c\<close> to \<^verbatim>\<open>\x1f\<close>, \<^verbatim>\<open>\x85\<close> and \<^verbatim>\<open>\xa0\<close>; the only decimal digits are
  \<^verbatim>\<open>0\<close> to \<^verbatim>\<open>9\<close>; a word character is an alphanumeric character (the letters,
  the digits, and the numeric characters \<^verbatim>\<open>\xb2\<close>, \<^verbatim>\<open>\xb3\<close>, \<^verbatim>\<open>\xb9\<close>, \<^verbatim>\<open>\xbc\<close> to
  \<^verbatim>\<open>\xbe\<close>) or the underscore; the upper-case letters are \<^verbatim>\<open>A\<close> to \<^verbatim>\<open>Z\<close> and
  \<^verbatim>\<open>\xc0\<close> to \<^verbatim>\<open>\xde\<close> without \<^verbatim>\<open>\xd7\<close>. Characters beyond \<^verbatim>\<open>\xff\<close> are not
  part of the embedding.
\<close>

definition py_isspace :: "char \<Rightarrow> bool" where
  "py_isspace c \<longleftrightarrow>
     c \<in> set [CHR 0x09, CHR 0x0A, CHR 0x0B, CHR 0x0C, CHR 0x0D,
              CHR 0x1C, CHR 0x1D, CHR 0x1E, CHR 0x1F, CHR 0x20, CHR 0x85, CHR 0xA0]"

definition strip :: "string \<Rightarrow> string" where
  "strip s = rev (dropWhile py_isspace (rev (dropWhile py_isspace s)))"

definition upper_letters :: string where
  "upper_letters =
     ''ABCDEFGHIJKLMNOPQRSTUVWXYZ'' @
     [CHR 0xC0, CHR 0xC1, CHR 0xC2, CHR 0xC3, CHR 0xC4, CHR 0xC5, CHR 0xC6, CHR 0xC7,
      CHR 0xC8, CHR 0xC9, CHR 0xCA, CHR 0xCB, CHR 0xCC, CHR 0xCD, CHR 0xCE, CHR 0xCF,
      CHR 0xD0, CHR 0xD1, CHR 0xD2, CHR 0xD3, CHR 0xD4, CHR 0xD5, CHR 0xD6, CHR 0xD8,
      CHR 0xD9, CHR 0xDA, CHR 0xDB, CHR 0xDC, CHR 0xDD, CHR 0xDE]"

definition lower_letters :: string where
  "lower_letters =
     ''abcdefghijklmnopqrstuvwxyz'' @
     [CHR 0xE0, CHR 0xE1, CHR 0xE2, CHR 0xE3, CHR 0xE4, CHR 0xE5, CHR 0xE6, CHR 0xE7,
      CHR 0xE8, CHR 0xE9, CHR 0xEA, CHR 0xEB, CHR 0xEC, CHR 0xED, CHR 0xEE, CHR 0xEF,
      CHR 0xF0, CHR 0xF1, CHR 0xF2, CHR 0xF3, CHR 0xF4, CHR 0xF5, CHR 0xF6, CHR 0xF8,
      CHR 0xF9, CHR 0xFA, CHR 0xFB, CHR 0xFC, CHR 0xFD, CHR 0xFE]"

definition lower_char :: "char \<Rightarrow> char" where
  "lower_char c =
     (case map_of (zip upper_letters lower_letters) c of None \<Rightarrow> c | Some l \<Rightarrow> l)"

definition lower :: "string \<Rightarrow> string" where
  "lower s = map lower_char s"

definition is_digit :: "char \<Rightarrow> bool" where
  "is_digit c \<longleftrightarrow> c \<in> set ''0123456789''"

definition is_word :: "char \<Rightarrow> bool" where
  "is_word c \<longleftrightarrow>
     c \<in> set (''0123456789_'' @ upper_letters @ lower_letters @
              [CHR 0xAA, CHR 0xB2, CHR 0xB3, CHR 0xB5, CHR 0xB9, CHR 0xBA, CHR 0xBC, CHR 0xBD,
               CHR 0xBE, CHR 0xDF, CHR 0xFF])"

definition digit_val :: "char \<Rightarrow> nat" where
  "digit_val c =
     (case map_of (zip ''0123456789'' [0, 1, 2, 3, 4, 5, 6, 7, 8, 9]) c of
        None \<Rightarrow> 0 | Some d \<Rightarrow> d)"

text \<open>\<^verbatim>\<open>int(s)\<close> for a string of decimal digits.\<close>

definition int_of_digits :: "string \<Rightarrow> nat" where
  "int_of_digits ds = foldl (\<lambda>n c. 10 * n + digit_val c) 0 ds"

definition continue_phrases :: "string list" where
  "continue_phrases =
     [''more'', ''next'', ''continue'', ''more please'', ''show more'', ''keep going'']"

text \<open>
  \<^verbatim>\<open>re.match(r"^(?:next|more|show)\s+(\d{1,3})\b", t)\<close>: one of the three words, at least
  one white-space character, then one to three digits that end at a word boundary. The
  digits are the whole run of digits (a shorter one is followed by a digit, where there is no
  boundary), so the run has at most three digits and is followed by the end of the string or
  by a character that is not a word character.
\<close>

definition re_match_more :: "string \<Rightarrow> nat option" where
  "re_match_more t =
     (if take 4 t \<in> set [''next'', ''more'', ''show''] then
        (let rest = drop 4 t;
             after_ws = dropWhile py_isspace rest;
             ds = takeWhile is_digit after_ws;
             after_ds = dropWhile is_digit after_ws
         in if rest \<noteq> [] \<and> py_isspace (hd rest) \<and> 1 \<le> length ds \<and> length ds \<le> 3
               \<and> (after_ds = [] \<or> \<not> is_word (hd after_ds))
            then Some (int_of_digits ds) else None)
      else None)"

definition is_more_query :: "string \<Rightarrow> nat option" where
  "is_more_query text =
     (let t = lower (strip text)
      in if t = [] then None
         else if t \<in> set continue_phrases then None
         else (case re_match_more t of Some n \<Rightarrow> Some n | None \<Rightarrow> None))"

section \<open>The retrieval pipeline (agents.py)\<close>

text \<open>
  The language model, the two search backends and the text synthesis are outside the
  program. They are parameters; each may raise. Every call made is recorded, in order.
\<close>

datatype call =
    DetectIntents string "string list"
  | RewriteWithHistory string "string list"
  | ForKeywords string
  | GeneralSearch string nat
  | FuzzyKeywordSearch "string list" nat
  | VectorSearch string nat
  | FinalSynthesis string "pydict list" "string list" nat string

record env =
  detect_intents :: "string \<Rightarrow> string list \<Rightarrow> py_error + string list"
  rewrite_with_history :: "string \<Rightarrow> string list \<Rightarrow> py_error + string"
  for_keywords :: "string \<Rightarrow> py_error + string list"
  general_search :: "string \<Rightarrow> nat \<Rightarrow> py_error + pyval list"
  fuzzy_keyword_search :: "string list \<Rightarrow> nat \<Rightarrow> py_error + pyval list"
  vector_enabled :: bool
  vector_search :: "string \<Rightarrow> nat \<Rightarrow> py_error + pyval list"
  final_synthesis ::
    "string \<Rightarrow> pydict list \<Rightarrow> string list \<Rightarrow> nat \<Rightarrow> string \<Rightarrow> py_error + string"

type_synonym 'a traced = "(py_error + 'a) \<times> call list"

definition ret :: "'a \<Rightarrow> 'a traced" where
  "ret x = (Inr x, [])"

definition ext_call :: "call \<Rightarrow> py_error + 'a \<Rightarrow> 'a traced" where
  "ext_call c r = (r, [c])"

text \<open>Sequencing: an exception ends the computation, the calls made so far stay.\<close>

definition bind_t :: "'a traced \<Rightarrow> ('a \<Rightarrow> 'b traced) \<Rightarrow> 'b traced" where
  "bind_t m f =
     (case m of
        (Inl e, tr) \<Rightarrow> (Inl e, tr)
      | (Inr x, tr) \<Rightarrow> (case f x of (r, tr') \<Rightarrow> (r, tr @ tr')))"

text \<open>\<^verbatim>\<open>try: ... except Exception: x = []\<close>\<close>

definition or_empty :: "'a list traced \<Rightarrow> 'a list traced" where
  "or_empty m = (case m of (Inl e, tr) \<Rightarrow> (Inr [], tr) | (Inr x, tr) \<Rightarrow> (Inr x, tr))"

definition GREETING :: string where "GREETING = ''greeting''"
definition DATA_DISCOVERY :: string where "DATA_DISCOVERY = ''data_discovery''"

text \<open>\<^verbatim>\<open>set(intents) == {QueryIntent.GREETING.value}\<close>\<close>

definition pure_greeting :: "string list \<Rightarrow> bool" where
  "pure_greeting ints \<longleftrightarrow> set ints = {GREETING}"

definition extract_keywords_and_rewrite :: "env \<Rightarrow> agent_state \<Rightarrow> agent_state traced" where
  "extract_keywords_and_rewrite ev state =
     bind_t (ext_call (DetectIntents (query state) (history state))
               (detect_intents ev (query state) (history state)))
       (\<lambda>intents0.
          if intents0 = [GREETING] then
            ret (state\<lparr>effective_query := query state, keywords_f := [], intents := intents0\<rparr>)
          else
            bind_t (ext_call (RewriteWithHistory (query state) (history state))
                      (rewrite_with_history ev (query state) (history state)))
              (\<lambda>effective.
                 bind_t (ext_call (ForKeywords effective) (for_keywords ev effective))
                   (\<lambda>kws.
                      bind_t (ext_call (DetectIntents effective (history state))
                                (detect_intents ev effective (history state)))
                        (\<lambda>ints.
                           ret (state\<lparr>effective_query := effective, keywords_f := kws,
                                      intents := ints\<rparr>)))))"

text \<open>
  \<^verbatim>\<open>KSSearchAgent.run\<close>: both searches are tried, a failing one counts as empty, and the
  two lists are concatenated (without deduplication) and cut to \<^verbatim>\<open>max(want, 15)\<close>.
\<close>

definition ks_agent_run :: "env \<Rightarrow> string \<Rightarrow> string list \<Rightarrow> nat \<Rightarrow> pyval list traced" where
  "ks_agent_run ev q kws want =
     bind_t (or_empty (ext_call (GeneralSearch q (min want 50)) (general_search ev q (min want 50))))
       (\<lambda>general.
          bind_t (or_empty (ext_call (FuzzyKeywordSearch kws (min want 50))
                              (fuzzy_keyword_search ev kws (min want 50))))
            (\<lambda>fuzzy. ret (take (max want 15) (general @ fuzzy))))"

text \<open>\<^verbatim>\<open>VectorSearchAgent.run\<close>\<close>

definition vec_agent_run :: "env \<Rightarrow> string \<Rightarrow> nat \<Rightarrow> pyval list traced" where
  "vec_agent_run ev q want =
     (if \<not> vector_enabled ev then ret []
      else or_empty (ext_call (VectorSearch q (min want 50)) (vector_search ev q (min want 50))))"

definition execute_search :: "env \<Rightarrow> agent_state \<Rightarrow> agent_state traced" where
  "execute_search ev state =
     (if pure_greeting (intents state) then
        ret (state\<lparr>ks_results := [], vector_results := []\<rparr>)
      else
        (let want_pool = 60
         in bind_t (ks_agent_run ev (effective_query state) (keywords_f state) want_pool)
              (\<lambda>all_ks_results.
                 bind_t (vec_agent_run ev (effective_query state) want_pool)
                   (\<lambda>vec_results.
                      ret (state\<lparr>ks_results := all_ks_results,
                                 vector_results := vec_results\<rparr>)))))"

definition greeting_response :: string where
  "greeting_response =
     ''Hey! I can help you find neuroscience datasets.'' @ [CHR 0x0A, CHR 0x0A]
     @ ''Try examples:'' @ [CHR 0x0A]
     @ ''- rat electrophysiology in hippocampus'' @ [CHR 0x0A]
     @ ''- human EEG visual stimulus, BIDS format'' @ [CHR 0x0A]
     @ ''- fMRI datasets with CC0 or PDDL license'' @ [CHR 0x0A]
     @ ''- datasets from EBRAINS about DWI'' @ [CHR 0x0A]"

definition generate_final_response :: "env \<Rightarrow> agent_state \<Rightarrow> agent_state traced" where
  "generate_final_response ev state =
     (if pure_greeting (intents state) then
        ret (state\<lparr>final_response := greeting_response\<rparr>)
      else
        bind_t (ext_call (FinalSynthesis (effective_query state) (final_results state)
                            (intents state) (start_number state) (previous_text state))
                  (final_synthesis ev (effective_query state) (final_results state)
                     (intents state) (start_number state) (previous_text state)))
          (\<lambda>response. ret (state\<lparr>final_response := response\<rparr>)))"

text \<open>The graph: prepare, search, fusion, generate\_response, in this order.\<close>

definition run_graph :: "env \<Rightarrow> agent_state \<Rightarrow> agent_state traced" where
  "run_graph ev initial_state =
     bind_t (extract_keywords_and_rewrite ev initial_state)
       (\<lambda>s1. bind_t (execute_search ev s1)
          (\<lambda>s2. bind_t (fuse_results s2, [])
             (\<lambda>s3. generate_final_response ev s3)))"

section \<open>Session pagination (\<^verbatim>\<open>NeuroscienceAssistant.handle_chat\<close>, agents.py)\<close>

text \<open>
  The dictionary stored per session. It is written in two places only, the new-query branch
  (all seven keys) and the update of the continuation branch, so every stored dictionary has
  all keys, \<^verbatim>\<open>page\<close> is at least 1 and \<^verbatim>\<open>page_size\<close> is positive: both are naturals.
\<close>

record session_mem =
  mem_all_results :: "pydict list"
  mem_page :: nat
  mem_page_size :: nat
  mem_effective_query :: string
  mem_keywords :: "string list"
  mem_intents :: "string list"
  mem_last_text :: string

record assistant =
  chat_history :: "string \<rightharpoonup> string list"
  session_memory :: "string \<rightharpoonup> session_mem"

text \<open>
  What \<^verbatim>\<open>handle_chat\<close> returns: the synthesized text, one of its two fixed messages
  ("There are no earlier results to continue. ..." and "You've reached the end of the
  results. ..."), or the text of a caught exception.
\<close>

datatype reply = Reply string | NothingToContinue | EndOfResults | ErrorReply py_error

definition reset_session :: "assistant \<Rightarrow> string \<Rightarrow> assistant" where
  "reset_session self sid =
     self\<lparr>chat_history := (chat_history self)(sid := None),
          session_memory := (session_memory self)(sid := None)\<rparr>"

text \<open>\<^verbatim>\<open>xs[-n:]\<close> for a positive \<open>n\<close>\<close>

definition last_n :: "nat \<Rightarrow> 'a list \<Rightarrow> 'a list" where
  "last_n n xs = drop (length xs - n) xs"

definition extend_history :: "assistant \<Rightarrow> string \<Rightarrow> string \<Rightarrow> string \<Rightarrow> assistant" where
  "extend_history self sid q text =
     (let h = (case chat_history self sid of None \<Rightarrow> [] | Some h \<Rightarrow> h)
                @ [''User: '' @ q, ''Assistant: '' @ text];
          h' = (if length h > 20 then last_n 20 h else h)
      in self\<lparr>chat_history := (chat_history self)(sid \<mapsto> h')\<rparr>)"

text \<open>\<^verbatim>\<open>more_count is not None or query.strip().lower() in {...}\<close>\<close>

definition is_continuation :: "string \<Rightarrow> bool" where
  "is_continuation q \<longleftrightarrow> is_more_query q \<noteq> None \<or> lower (strip q) \<in> set continue_phrases"

text \<open>\<^verbatim>\<open>page_size = more_count or mem.get("page_size", 15)\<close>\<close>

definition resolve_page_size :: "nat option \<Rightarrow> session_mem \<Rightarrow> nat" where
  "resolve_page_size more_count mem =
     (case more_count of
        None \<Rightarrow> mem_page_size mem
      | Some n \<Rightarrow> if n \<noteq> 0 then n else mem_page_size mem)"

text \<open>
  \<^verbatim>\<open>page = mem.get("page", 1) + 1; start = (page - 1) * page_size\<close>
\<close>

definition page_start :: "nat option \<Rightarrow> session_mem \<Rightarrow> nat" where
  "page_start more_count mem = (mem_page mem + 1 - 1) * resolve_page_size more_count mem"

text \<open>\<^verbatim>\<open>batch = all_results[start:start + page_size]\<close>\<close>

definition page_batch :: "nat option \<Rightarrow> session_mem \<Rightarrow> pydict list" where
  "page_batch more_count mem =
     take (resolve_page_size more_count mem)
       (drop (page_start more_count mem) (mem_all_results mem))"

definition initial_state :: "assistant \<Rightarrow> string \<Rightarrow> string \<Rightarrow> agent_state" where
  "initial_state self sid q =
     \<lparr>session_id = sid, query = q,
      history = last_n 10 (case chat_history self sid of None \<Rightarrow> [] | Some h \<Rightarrow> h),
      keywords_f = [], effective_query = [], intents = [], ks_results = [],
      vector_results = [], final_results = [], all_results = [],
      start_number = 1, previous_text = [], final_response = []\<rparr>"

text \<open>
  The first two statements of \<^verbatim>\<open>handle_chat\<close>: the optional reset, and an empty chat
  history for a session that has none.
\<close>

definition open_session :: "assistant \<Rightarrow> string \<Rightarrow> bool \<Rightarrow> assistant" where
  "open_session self0 sid reset =
     (let self1 = (if reset then reset_session self0 sid else self0)
      in if chat_history self1 sid = None
         then self1\<lparr>chat_history := (chat_history self1)(sid \<mapsto> [])\<rparr> else self1)"

definition handle_chat ::
  "env \<Rightarrow> assistant \<Rightarrow> string \<Rightarrow> string \<Rightarrow> bool \<Rightarrow> reply \<times> assistant \<times> call list" where
  "handle_chat ev self0 sid q reset =
     (let self2 = open_session self0 sid reset;
          more_count = is_more_query q
      in if more_count \<noteq> None \<or> lower (strip q) \<in> set continue_phrases then
           (case session_memory self2 sid of
              None \<Rightarrow> (NothingToContinue, self2, [])
            | Some mem \<Rightarrow>
                if mem_all_results mem = [] then (NothingToContinue, self2, [])
                else
                  (let page_size = resolve_page_size more_count mem;
                       page = mem_page mem + 1;
                       start = page_start more_count mem;
                       batch = page_batch more_count mem
                   in if batch = [] then (EndOfResults, self2, [])
                      else
                        (let prev_text = mem_last_text mem;
                             c = FinalSynthesis (mem_effective_query mem) batch (mem_intents mem)
                                   (start + 1) prev_text
                         in case final_synthesis ev (mem_effective_query mem) batch
                                   (mem_intents mem) (start + 1) prev_text of
                              Inl e \<Rightarrow> (ErrorReply e, self2, [c])
                            | Inr text \<Rightarrow>
                                (Reply text,
                                 extend_history
                                   (self2\<lparr>session_memory := (session_memory self2)(sid \<mapsto>
                                      mem\<lparr>mem_page := page, mem_page_size := page_size,
                                          mem_last_text :=
                                            last_n 12000 (prev_text @ [CHR 0x0A, CHR 0x0A] @ text)\<rparr>)\<rparr>)
                                   sid q text,
                                 [c]))))
         else
           (case run_graph ev (initial_state self2 sid q) of
              (Inl e, tr) \<Rightarrow> (ErrorReply e, self2, tr)
            | (Inr final_state, tr) \<Rightarrow>
                (let response_text = final_response final_state
                 in (Reply response_text,
                     extend_history
                       (self2\<lparr>session_memory := (session_memory self2)(sid \<mapsto>
                          \<lparr>mem_all_results = all_results final_state, mem_page = 1,
                           mem_page_size = 15,
                           mem_effective_query = effective_query final_state,
                           mem_keywords = keywords_f final_state,
                           mem_intents = intents final_state,
                           mem_last_text = response_text\<rparr>)\<rparr>)
                       sid q response_text,
                     tr))))"

section \<open>Example inputs\<close>

text \<open>
  An environment in which every external call answers, the vector backend returns 32 hits
  with distinct ids, and the lexical searches return nothing; an assistant with no session;
  and a stored session with a single fused record.
\<close>

definition example_hits :: "pyval list" where
  "example_hits = map (\<lambda>n. PDict [(''id'', PStr (str_nat n)), (''similarity'', PNum 1)]) [0..<32]"

definition example_env :: env where
  "example_env =
     \<lparr>detect_intents = (\<lambda>q h. Inr [DATA_DISCOVERY]),
      rewrite_with_history = (\<lambda>q h. Inr q),
      for_keywords = (\<lambda>q. Inr []),
      general_search = (\<lambda>q n. Inr []),
      fuzzy_keyword_search = (\<lambda>ks n. Inr []),
      vector_enabled = True,
      vector_search = (\<lambda>q n. Inr example_hits),
      final_synthesis = (\<lambda>q b i n p. Inr ''text'')\<rparr>"

definition example_self :: assistant where
  "example_self = \<lparr>chat_history = Map.empty, session_memory = Map.empty\<rparr>"



section \<open>Continuation requests, as they are written\<close>




section \<open>Multi-keyword fuzzy search (\<^verbatim>\<open>global_fuzzy_keyword_search\<close>, ks\_search\_tool.py)\<close>

text \<open>
  The search of one keyword over all configured fields, \<^verbatim>\<open>search_across_all_fields\<close>, asks
  the remote catalog and is a parameter here: it returns a list of records or raises. The
  configuration file is a parameter as well: it is absent, or reading it raises, or it holds
  the configuration.
\<close>

text \<open>\<^verbatim>\<open>r.get("_id") or r.get("id")\<close>\<close>

definition record_id :: "pydict \<Rightarrow> pyval" where
  "record_id d = py_or (dict_get d ''_id'' PNone) (dict_get d ''id'' PNone)"

text \<open>
  One round of the inner loop on \<^verbatim>\<open>seen\<close> and \<^verbatim>\<open>out\<close>:
  \<^verbatim>\<open>if rid and rid not in seen: seen.add(rid); out.append(r)\<close>. A record that is not a
  dictionary has no \<^verbatim>\<open>get\<close>; a truthy id that is a list or a dictionary cannot be looked up
  in a set.
\<close>

definition union_step ::
  "pyval set \<times> pyval list \<Rightarrow> pyval \<Rightarrow> py_error + pyval set \<times> pyval list" where
  "union_step so r =
     (case r of
        PDict d \<Rightarrow>
          (let rid = record_id d
           in if truthy rid then
                (case hash_key rid of
                   Inl e \<Rightarrow> Inl e
                 | Inr k \<Rightarrow>
                     if k \<notin> fst so then Inr (insert k (fst so), snd so @ [r]) else Inr so)
              else Inr so)
      | _ \<Rightarrow> Inl AttributeError)"

fun union_loop ::
  "pyval set \<times> pyval list \<Rightarrow> pyval list \<Rightarrow> py_error + pyval set \<times> pyval list" where
  "union_loop so [] = Inr so"
| "union_loop so (r # rs) =
     (case union_step so r of Inl e \<Rightarrow> Inl e | Inr so' \<Rightarrow> union_loop so' rs)"

text \<open>
  The loop over the keywords: an empty keyword is skipped, and the loop is left once
  \<^verbatim>\<open>len(out) >= top_k\<close>.
\<close>

fun keyword_loop ::
  "(string \<Rightarrow> py_error + pyval list) \<Rightarrow> int \<Rightarrow> pyval set \<times> pyval list \<Rightarrow> string list
     \<Rightarrow> py_error + pyval set \<times> pyval list" where
  "keyword_loop search top_k so [] = Inr so"
| "keyword_loop search top_k so (kw # kws) =
     (if kw = [] then keyword_loop search top_k so kws
      else (case search kw of
              Inl e \<Rightarrow> Inl e
            | Inr results \<Rightarrow>
                (case union_loop so results of
                   Inl e \<Rightarrow> Inl e
                 | Inr so' \<Rightarrow>
                     if top_k \<le> int (length (snd so')) then Inr so'
                     else keyword_loop search top_k so' kws)))"

text \<open>\<^verbatim>\<open>xs[:k]\<close> for an integer \<open>k\<close>; a negative \<open>k\<close> counts from the end.\<close>

definition slice_to :: "int \<Rightarrow> 'a list \<Rightarrow> 'a list" where
  "slice_to k xs = (if 0 \<le> k then take (nat k) xs else take (length xs - nat (- k)) xs)"

text \<open>
  The function: \<^verbatim>\<open>[]\<close> when the configuration file does not exist; \<^verbatim>\<open>keywords or []\<close>
  makes \<^verbatim>\<open>None\<close> the empty list.
\<close>

definition global_fuzzy_keyword_search ::
  "(py_error + 'c) option \<Rightarrow> ('c \<Rightarrow> string \<Rightarrow> py_error + pyval list)
     \<Rightarrow> string list option \<Rightarrow> int \<Rightarrow> py_error + pyval list" where
  "global_fuzzy_keyword_search config search keywords top_k =
     (case config of
        None \<Rightarrow> Inr []
      | Some (Inl e) \<Rightarrow> Inl e
      | Some (Inr all_configs) \<Rightarrow>
          (case keyword_loop (search all_configs) top_k ({}, [])
                  (case keywords of None \<Rightarrow> [] | Some kws \<Rightarrow> kws) of
             Inl e \<Rightarrow> Inl e
           | Inr so \<Rightarrow> Inr (slice_to top_k (snd so))))"

text \<open>
  A record carries an id when its \<^verbatim>\<open>_id\<close> or its \<^verbatim>\<open>id\<close> is truthy, and lacks one when it
  is a dictionary in which neither is. Leaving the records without id out of a search result:
\<close>

definition carries_id :: "pyval \<Rightarrow> bool" where
  "carries_id r \<longleftrightarrow>
     (case r of
        PDict d \<Rightarrow> truthy (dict_get d ''_id'' PNone) \<or> truthy (dict_get d ''id'' PNone)
      | _ \<Rightarrow> False)"

definition lacks_id :: "pyval \<Rightarrow> bool" where
  "lacks_id r \<longleftrightarrow>
     (case r of
        PDict d \<Rightarrow> \<not> truthy (dict_get d ''_id'' PNone) \<and> \<not> truthy (dict_get d ''id'' PNone)
      | _ \<Rightarrow> False)"

definition without_idless :: "py_error + pyval list \<Rightarrow> py_error + pyval list" where
  "without_idless res = map_sum id (filter (\<lambda>r. \<not> lacks_id r)) res"

text \<open>
  A search that finds four records: the second has no id, the third an empty \<^verbatim>\<open>_id\<close> and
  an \<^verbatim>\<open>id\<close>, the fourth the id of the first.
\<close>

definition example_search :: "unit \<Rightarrow> string \<Rightarrow> py_error + pyval list" where
  "example_search c kw =
     Inr [PDict [(''_id'', PStr ''a''), (''title_guess'', PStr ''A'')],
          PDict [(''_id'', PNone), (''title_guess'', PStr ''B'')],
          PDict [(''_id'', PStr ''''), (''id'', PStr ''c'')],
          PDict [(''_id'', PStr ''a''), (''title_guess'', PStr ''D'')]]"


section \<open>Properties of result fusion\<close>


subsection \<open>Sorting the values is sorting the items\<close>







subsection \<open>The keys of \<^verbatim>\<open>combined\<close> stay distinct\<close>








subsection \<open>The payload of a fused record\<close>







subsection \<open>Synthesized ids\<close>






section \<open>Properties of the session manager\<close>

lemmas more_eval = is_continuation_def is_more_query_def strip_def lower_def lower_char_def
  upper_letters_def lower_letters_def
  py_isspace_def continue_phrases_def re_match_more_def is_digit_def is_word_def
  int_of_digits_def digit_val_def

lemma bind_t_Inr:
  assumes "bind_t m f = (Inr y, tr)"
  obtains x tr1 tr2 where "m = (Inr x, tr1)" and "f x = (Inr y, tr2)" and "tr = tr1 @ tr2"
  using assms by (auto simp: bind_t_def split: prod.splits sum.splits)


lemma bind_t_pair:
  "bind_t (Inr x, tr) f = (case f x of (r, tr') \<Rightarrow> (r, tr @ tr'))"
  "bind_t (Inl e, tr) f = (Inl e, tr)"
  by (simp_all add: bind_t_def)

lemma bind_t_ret [simp]: "bind_t (ret x) f = f x"
  by (simp add: bind_t_def ret_def split: prod.splits)

lemma bind_t_ext_call [simp]:
  "bind_t (ext_call c r) f =
     (case r of Inl e \<Rightarrow> (Inl e, [c]) | Inr x \<Rightarrow> (case f x of (y, tr) \<Rightarrow> (y, c # tr)))"
  by (simp add: bind_t_def ext_call_def split: sum.splits prod.splits)

lemma bind_t_or_empty_ext_call [simp]:
  "bind_t (or_empty (ext_call c r)) f =
     (case f (case r of Inl e \<Rightarrow> [] | Inr x \<Rightarrow> x) of (y, tr) \<Rightarrow> (y, c # tr))"
  by (simp add: bind_t_def ext_call_def or_empty_def split: sum.splits prod.splits)

lemma extract_keeps:
  assumes "extract_keywords_and_rewrite ev s = (Inr s', tr)"
  shows "start_number s' = start_number s \<and> previous_text s' = previous_text s"
  using assms unfolding extract_keywords_and_rewrite_def
  by (simp add: ret_def split: sum.splits if_splits prod.splits) auto






lemma execute_search_keeps:
  assumes "execute_search ev s = (Inr s', tr)"
  shows "start_number s' = start_number s \<and> previous_text s' = previous_text s
       \<and> intents s' = intents s \<and> effective_query s' = effective_query s
       \<and> (pure_greeting (intents s) \<longrightarrow> ks_results s' = [] \<and> vector_results s' = [])"
  using assms unfolding execute_search_def ks_agent_run_def vec_agent_run_def Let_def
  by (simp add: ret_def bind_t_pair split: sum.splits if_splits prod.splits) auto




lemma fuse_results_keeps:
  assumes "fuse_results s = Inr s'"
  shows "start_number s' = start_number s \<and> previous_text s' = previous_text s
       \<and> intents s' = intents s \<and> effective_query s' = effective_query s
       \<and> final_results s' = take 15 (all_results s')
       \<and> (ks_results s = [] \<and> vector_results s = [] \<longrightarrow> all_results s' = [])"
  using assms unfolding fuse_results_def Let_def
  by (auto simp: fuse_combined_def sorted_desc_def split: sum.splits)




lemma generate_final_response_call:
  assumes "generate_final_response ev s = (Inr s', tr)"
  shows "all_results s' = all_results s \<and> final_results s' = final_results s
       \<and> intents s' = intents s \<and> effective_query s' = effective_query s
       \<and> (\<not> pure_greeting (intents s) \<longrightarrow>
            tr = [FinalSynthesis (effective_query s) (final_results s) (intents s)
                    (start_number s) (previous_text s)])"
  using assms unfolding generate_final_response_def
  by (simp add: ret_def split: sum.splits if_splits prod.splits) auto






lemma run_graph_first_page:
  assumes "run_graph ev s = (Inr s', tr)" and "all_results s' \<noteq> []"
  shows "\<exists>tr0. tr = tr0 @ [FinalSynthesis (effective_query s') (take 15 (all_results s'))
                             (intents s') (start_number s) (previous_text s)]"
proof -
  from assms(1) obtain s1 t1 r1 where
    e: "extract_keywords_and_rewrite ev s = (Inr s1, t1)" and
    b1: "bind_t (execute_search ev s1)
          (\<lambda>s2. bind_t (fuse_results s2, []) (\<lambda>s3. generate_final_response ev s3)) = (Inr s', r1)"
    and tr1: "tr = t1 @ r1"
    unfolding run_graph_def by (rule bind_t_Inr)
  from b1 obtain s2 t2 r2 where
    x: "execute_search ev s1 = (Inr s2, t2)" and
    b2: "bind_t (fuse_results s2, []) (\<lambda>s3. generate_final_response ev s3) = (Inr s', r2)"
    and tr2: "r1 = t2 @ r2"
    by (rule bind_t_Inr)
  from b2 obtain s3 t3 t4 where
    f0: "(fuse_results s2, []) = (Inr s3, t3)" and
    g: "generate_final_response ev s3 = (Inr s', t4)" and tr3: "r2 = t3 @ t4"
    by (rule bind_t_Inr)
  from f0 have f: "fuse_results s2 = Inr s3" by simp
  note E = extract_keeps [OF e] and X = execute_search_keeps [OF x]
    and F = fuse_results_keeps [OF f] and G = generate_final_response_call [OF g]
  from G F assms(2) have ne: "all_results s3 \<noteq> []" by simp
  with F X have "\<not> pure_greeting (intents s3)" by auto
  with G have "t4 = [FinalSynthesis (effective_query s3) (final_results s3) (intents s3)
                    (start_number s3) (previous_text s3)]" by simp
  with E X F G tr1 tr2 tr3 show ?thesis by simp
qed




lemma session_memory_extend_history [simp]:
  "session_memory (extend_history self sid q t) = session_memory self"
  by (simp add: extend_history_def Let_def)

lemma session_memory_open_session:
  "session_memory (open_session self sid reset) =
     (if reset then (session_memory self)(sid := None) else session_memory self)"
  by (simp add: open_session_def reset_session_def Let_def)

lemma handle_chat_new:
  assumes "\<not> is_continuation q"
  shows "handle_chat ev self0 sid q reset =
     (case run_graph ev (initial_state (open_session self0 sid reset) sid q) of
        (Inl e, tr) \<Rightarrow> (ErrorReply e, open_session self0 sid reset, tr)
      | (Inr fs, tr) \<Rightarrow>
          (Reply (final_response fs),
           extend_history
             ((open_session self0 sid reset)\<lparr>session_memory :=
                (session_memory (open_session self0 sid reset))(sid \<mapsto>
                   \<lparr>mem_all_results = all_results fs, mem_page = 1, mem_page_size = 15,
                    mem_effective_query = effective_query fs, mem_keywords = keywords_f fs,
                    mem_intents = intents fs, mem_last_text = final_response fs\<rparr>)\<rparr>)
             sid q (final_response fs),
           tr))"
  using assms unfolding handle_chat_def is_continuation_def Let_def
  by simp

lemma handle_chat_new_query:
  assumes "\<not> is_continuation q"
    and "handle_chat ev self0 sid q reset = (Reply t1, self1, tr1)"
    and "session_memory self1 sid = Some mem1"
    and "mem_all_results mem1 \<noteq> []"
  shows "mem_page mem1 = 1 \<and> mem_page_size mem1 = 15 \<and> mem_last_text mem1 = t1
       \<and> (\<exists>tr0. tr1 = tr0 @ [FinalSynthesis (mem_effective_query mem1)
                               (take 15 (mem_all_results mem1)) (mem_intents mem1) 1 []])"
proof -
  let ?self2 = "open_session self0 sid reset"
  obtain r tr where rg: "run_graph ev (initial_state ?self2 sid q) = (r, tr)"
    by (cases "run_graph ev (initial_state ?self2 sid q)")
  show ?thesis
  proof (cases r)
    case (Inl e)
    with rg assms(1,2) show ?thesis by (simp add: handle_chat_new)
  next
    case (Inr fs)
    with rg assms(1,2) have
      s1: "self1 = extend_history
             (?self2\<lparr>session_memory :=
                (session_memory ?self2)(sid \<mapsto>
                   \<lparr>mem_all_results = all_results fs, mem_page = 1, mem_page_size = 15,
                    mem_effective_query = effective_query fs, mem_keywords = keywords_f fs,
                    mem_intents = intents fs, mem_last_text = final_response fs\<rparr>)\<rparr>)
             sid q (final_response fs)"
      and t1: "t1 = final_response fs" and tr: "tr1 = tr"
      by (auto simp: handle_chat_new)
    from s1 assms(3) have m: "mem1 = \<lparr>mem_all_results = all_results fs, mem_page = 1,
        mem_page_size = 15, mem_effective_query = effective_query fs,
        mem_keywords = keywords_f fs, mem_intents = intents fs,
        mem_last_text = final_response fs\<rparr>"
      by simp
    with assms(4) have ne: "all_results fs \<noteq> []" by simp
    from rg Inr have rg': "run_graph ev (initial_state ?self2 sid q) = (Inr fs, tr)" by simp
    from run_graph_first_page [OF rg' ne] m t1 tr show ?thesis
      by (simp add: initial_state_def)
  qed
qed

lemma more_is_continuation:
  "is_more_query ''more'' = None"  "lower (strip ''more'') \<in> set continue_phrases"
  by code_simp+

lemma handle_chat_more:
  assumes "session_memory self sid = Some mem" and "page_batch None mem \<noteq> []"
    and "final_synthesis ev (mem_effective_query mem) (page_batch None mem) (mem_intents mem)
           (page_start None mem + 1) (mem_last_text mem) = Inr t"
  shows "\<exists>self'. handle_chat ev self sid ''more'' False =
           (Reply t, self',
            [FinalSynthesis (mem_effective_query mem) (page_batch None mem) (mem_intents mem)
               (page_start None mem + 1) (mem_last_text mem)])
         \<and> session_memory self' sid =
             Some (mem\<lparr>mem_page := mem_page mem + 1, mem_page_size := mem_page_size mem,
                       mem_last_text := last_n 12000 (mem_last_text mem @ [CHR 0x0A, CHR 0x0A] @ t)\<rparr>)"
proof -
  from assms(2) have "mem_all_results mem \<noteq> []" by (auto simp: page_batch_def)
  with assms show ?thesis
    unfolding handle_chat_def Let_def
    by (simp add: more_is_continuation resolve_page_size_def session_memory_open_session)
qed

lemma handle_chat_more_end:
  assumes "session_memory self sid = Some mem" and "mem_all_results mem \<noteq> []"
    and "page_batch None mem = []"
  shows "\<exists>self'. handle_chat ev self sid ''more'' False = (EndOfResults, self', [])
         \<and> session_memory self' = session_memory self"
  using assms unfolding handle_chat_def Let_def
  by (simp add: more_is_continuation session_memory_open_session)





subsection \<open>The recognizer accepts the continuation requests\<close>














subsection \<open>A continuation request without a session\<close>




subsection \<open>A continuation request past the last page\<close>




subsection \<open>Three pages of 32 results\<close>

lemma page_batch_default:
  assumes "mem_page mem = p" and "mem_page_size mem = 15"
  shows "page_batch None mem = take 15 (drop (p * 15) (mem_all_results mem))"
    and "page_start None mem = p * 15"
  using assms by (simp_all add: page_batch_def page_start_def resolve_page_size_def)

text \<open>
  Claim C2. A new query (one that is not taken for a continuation request) that is answered
  and leaves 32 fused records in the session serves the records 1 to 15 (the synthesis call
  gets the first 15 records, numbered from 1, with no previous text) and stores page 1 and
  page size 15. A first \<^verbatim>\<open>more\<close> serves the records 16 to 30: the slice starts at
  page times page size with the page count before the increment, \<open>1 * 15\<close>. A second
  \<^verbatim>\<open>more\<close> serves the two records 31 and 32, and a third returns the "end of results"
  message and leaves the session as it is. The synthesis call of the two continuations is
  taken to return a text.
\<close>

theorem pagination_of_32_results:
  assumes new: "\<not> is_continuation q"
    and first: "handle_chat ev1 self0 sid q reset = (Reply t1, self1, tr1)"
    and mem1: "session_memory self1 sid = Some mem1"
    and len: "length (mem_all_results mem1) = 32"
    and syn2: "\<And>e b i n p. \<exists>t. final_synthesis ev2 e b i n p = Inr t"
    and syn3: "\<And>e b i n p. \<exists>t. final_synthesis ev3 e b i n p = Inr t"
  shows "mem_page mem1 = 1 \<and> mem_page_size mem1 = 15
       \<and> (\<exists>tr0. tr1 = tr0 @ [FinalSynthesis (mem_effective_query mem1)
                               (take 15 (mem_all_results mem1)) (mem_intents mem1) 1 []])
       \<and> (\<exists>t2 self2 mem2.
            handle_chat ev2 self1 sid ''more'' False =
              (Reply t2, self2,
               [FinalSynthesis (mem_effective_query mem1)
                  (take 15 (drop 15 (mem_all_results mem1))) (mem_intents mem1) 16
                  (mem_last_text mem1)])
          \<and> session_memory self2 sid = Some mem2
          \<and> mem_page mem2 = 2 \<and> mem_page_size mem2 = 15
          \<and> (\<exists>t3 self3 mem3.
               handle_chat ev3 self2 sid ''more'' False =
                 (Reply t3, self3,
                  [FinalSynthesis (mem_effective_query mem1)
                     (drop 30 (mem_all_results mem1)) (mem_intents mem1) 31
                     (mem_last_text mem2)])
             \<and> length (drop 30 (mem_all_results mem1)) = 2
             \<and> session_memory self3 sid = Some mem3
             \<and> mem_page mem3 = 3 \<and> mem_page_size mem3 = 15
             \<and> (\<exists>self4.
                  handle_chat ev4 self3 sid ''more'' False = (EndOfResults, self4, [])
                \<and> session_memory self4 = session_memory self3)))"
proof -
  let ?all = "mem_all_results mem1"
  from len have ne: "?all \<noteq> []" by auto
  from handle_chat_new_query [OF new first mem1 ne]
  have p1: "mem_page mem1 = 1" and s1: "mem_page_size mem1 = 15"
    and tr: "\<exists>tr0. tr1 = tr0 @ [FinalSynthesis (mem_effective_query mem1)
                               (take 15 ?all) (mem_intents mem1) 1 []]"
    by auto
  have b2: "page_batch None mem1 = take 15 (drop 15 ?all)" and st2: "page_start None mem1 = 15"
    using page_batch_default [OF p1 s1] by simp_all
  from len have b2ne: "page_batch None mem1 \<noteq> []" unfolding b2 by auto
  from syn2 obtain t2 where
    y2: "final_synthesis ev2 (mem_effective_query mem1) (page_batch None mem1)
           (mem_intents mem1) (page_start None mem1 + 1) (mem_last_text mem1) = Inr t2"
    by blast
  define mem2 where "mem2 = mem1\<lparr>mem_page := mem_page mem1 + 1,
      mem_page_size := mem_page_size mem1,
      mem_last_text := last_n 12000 (mem_last_text mem1 @ [CHR 0x0A, CHR 0x0A] @ t2)\<rparr>"
  from handle_chat_more [OF mem1 b2ne y2] obtain self2 where
    h2: "handle_chat ev2 self1 sid ''more'' False =
           (Reply t2, self2,
            [FinalSynthesis (mem_effective_query mem1) (page_batch None mem1)
               (mem_intents mem1) (page_start None mem1 + 1) (mem_last_text mem1)])"
    and m2: "session_memory self2 sid = Some mem2"
    unfolding mem2_def by blast
  have p2: "mem_page mem2 = 2" and s2: "mem_page_size mem2 = 15"
    and a2: "mem_all_results mem2 = ?all"
    and q2: "mem_effective_query mem2 = mem_effective_query mem1"
    and i2: "mem_intents mem2 = mem_intents mem1"
    using p1 s1 by (simp_all add: mem2_def)
  have b3: "page_batch None mem2 = drop 30 ?all" and st3: "page_start None mem2 = 30"
    using page_batch_default [OF p2 s2] len by (simp_all add: a2)
  from len have l3: "length (drop 30 ?all) = 2" by simp
  then have b3ne: "page_batch None mem2 \<noteq> []" unfolding b3 by auto
  from syn3 obtain t3 where
    y3: "final_synthesis ev3 (mem_effective_query mem2) (page_batch None mem2)
           (mem_intents mem2) (page_start None mem2 + 1) (mem_last_text mem2) = Inr t3"
    by blast
  define mem3 where "mem3 = mem2\<lparr>mem_page := mem_page mem2 + 1,
      mem_page_size := mem_page_size mem2,
      mem_last_text := last_n 12000 (mem_last_text mem2 @ [CHR 0x0A, CHR 0x0A] @ t3)\<rparr>"
  from handle_chat_more [OF m2 b3ne y3] obtain self3 where
    h3: "handle_chat ev3 self2 sid ''more'' False =
           (Reply t3, self3,
            [FinalSynthesis (mem_effective_query mem2) (page_batch None mem2)
               (mem_intents mem2) (page_start None mem2 + 1) (mem_last_text mem2)])"
    and m3: "session_memory self3 sid = Some mem3"
    unfolding mem3_def by blast
  have p3: "mem_page mem3 = 3" and s3: "mem_page_size mem3 = 15"
    and a3: "mem_all_results mem3 = ?all"
    using p2 s2 a2 by (simp_all add: mem3_def)
  have b4: "page_batch None mem3 = []"
    using page_batch_default [OF p3 s3] len by (simp add: a3)
  from ne a3 have ne3: "mem_all_results mem3 \<noteq> []" by simp
  from handle_chat_more_end [OF m3 ne3 b4] obtain self4 where
    h4: "handle_chat ev4 self3 sid ''more'' False = (EndOfResults, self4, [])"
    and m4: "session_memory self4 = session_memory self3"
    by blast
  from h2 have h2': "handle_chat ev2 self1 sid ''more'' False =
      (Reply t2, self2,
       [FinalSynthesis (mem_effective_query mem1) (take 15 (drop 15 ?all))
          (mem_intents mem1) 16 (mem_last_text mem1)])"
    by (simp add: b2 st2)
  from h3 have h3': "handle_chat ev3 self2 sid ''more'' False =
      (Reply t3, self3,
       [FinalSynthesis (mem_effective_query mem1) (drop 30 ?all)
          (mem_intents mem1) 31 (mem_last_text mem2)])"
    by (simp add: b3 st3 q2 i2)
  from p1 s1 tr h2' m2 p2 s2 h3' l3 m3 p3 s3 h4 m4 show ?thesis
    by blast
qed

text \<open>The query \<^verbatim>\<open>eeg\<close> on the example backends, which find 32 records.\<close>

theorem pagination_of_32_results_witness:
  "\<not> is_continuation ''eeg''
   \<and> fst (handle_chat example_env example_self ''s'' ''eeg'' False) = Reply ''text''
   \<and> (\<exists>t2 self2 c2 t3 self3 c3 self4.
         handle_chat example_env
           (fst (snd (handle_chat example_env example_self ''s'' ''eeg'' False)))
           ''s'' ''more'' False = (Reply t2, self2, c2)
       \<and> handle_chat example_env self2 ''s'' ''more'' False = (Reply t3, self3, c3)
       \<and> handle_chat example_env self3 ''s'' ''more'' False = (EndOfResults, self4, []))"
proof -
  let ?r = "handle_chat example_env example_self ''s'' ''eeg'' False"
  have new: "\<not> is_continuation ''eeg''" by code_simp
  have t: "fst ?r = Reply ''text''" by code_simp
  then have first: "?r = (Reply ''text'', fst (snd ?r), snd (snd ?r))"
    by (simp add: prod_eq_iff)
  have "map_option (length \<circ> mem_all_results) (session_memory (fst (snd ?r)) ''s'') = Some 32"
    by code_simp
  then obtain mem1 where mem1: "session_memory (fst (snd ?r)) ''s'' = Some mem1"
    and len: "length (mem_all_results mem1) = 32"
    by auto
  have syn: "\<And>e b i n p. \<exists>t. final_synthesis example_env e b i n p = Inr t"
    by (simp add: example_env_def)
  from pagination_of_32_results [OF new first mem1 len syn syn, of example_env] new t
  show ?thesis by blast
qed

section \<open>Properties of the multi-keyword fuzzy search\<close>

lemma truthy_record_id:
  "truthy (record_id d) \<longleftrightarrow>
     truthy (dict_get d ''_id'' PNone) \<or> truthy (dict_get d ''id'' PNone)"
  by (simp add: record_id_def py_or_def)

lemma union_step_lacks_id: "lacks_id r \<Longrightarrow> union_step so r = Inr so"
  by (cases r) (simp_all add: lacks_id_def union_step_def truthy_record_id Let_def)

lemma union_loop_without_idless:
  "union_loop so (filter (\<lambda>r. \<not> lacks_id r) rs) = union_loop so rs"
  by (induction rs arbitrary: so) (auto simp: union_step_lacks_id split: sum.splits)

lemma without_idless_simps [simp]:
  "without_idless (Inl e) = Inl e"
  "without_idless (Inr rs) = Inr (filter (\<lambda>r. \<not> lacks_id r) rs)"
  by (simp_all add: without_idless_def)

lemma keyword_loop_without_idless:
  "keyword_loop (\<lambda>kw. without_idless (search kw)) top_k so kws = keyword_loop search top_k so kws"
proof (induction kws arbitrary: so)
  case Nil
  show ?case by simp
next
  case (Cons kw kws)
  show ?case
    by (cases "search kw")
      (simp_all add: union_loop_without_idless Cons.IH split: sum.splits)
qed

lemma union_step_carries_id:
  assumes "union_step so r = Inr so'" and "\<forall>x \<in> set (snd so). carries_id x"
  shows "\<forall>x \<in> set (snd so'). carries_id x"
  using assms
  by (cases r)
    (auto simp: union_step_def Let_def carries_id_def truthy_record_id
          split: if_splits sum.splits)

lemma union_loop_carries_id:
  assumes "union_loop so rs = Inr so'" and "\<forall>x \<in> set (snd so). carries_id x"
  shows "\<forall>x \<in> set (snd so'). carries_id x"
  using assms
proof (induction rs arbitrary: so)
  case Nil
  then show ?case by simp
next
  case (Cons r rs)
  from Cons.prems(1) obtain so1 where s: "union_step so r = Inr so1"
    and l: "union_loop so1 rs = Inr so'"
    by (auto split: sum.splits)
  from union_step_carries_id [OF s Cons.prems(2)] Cons.IH [OF l] show ?case by blast
qed

lemma keyword_loop_carries_id:
  assumes "keyword_loop search top_k so kws = Inr so'" and "\<forall>x \<in> set (snd so). carries_id x"
  shows "\<forall>x \<in> set (snd so'). carries_id x"
  using assms
proof (induction kws arbitrary: so)
  case Nil
  then show ?case by simp
next
  case (Cons kw kws)
  show ?case
  proof (cases "kw = []")
    case True
    with Cons show ?thesis by simp
  next
    case False
    with Cons.prems(1) obtain results so1 where r: "search kw = Inr results"
      and u: "union_loop so results = Inr so1"
      and k: "(if top_k \<le> int (length (snd so1)) then Inr so1
               else keyword_loop search top_k so1 kws) = Inr so'"
      by (auto split: sum.splits)
    from union_loop_carries_id [OF u Cons.prems(2)]
    have c1: "\<forall>x \<in> set (snd so1). carries_id x" .
    show ?thesis
    proof (cases "top_k \<le> int (length (snd so1))")
      case True
      with k c1 show ?thesis by simp
    next
      case False
      with k have "keyword_loop search top_k so1 kws = Inr so'" by simp
      from Cons.IH [OF this c1] show ?thesis .
    qed
  qed
qed

lemma set_slice_to: "set (slice_to k xs) \<subseteq> set xs"
  by (simp add: slice_to_def set_take_subset)

text \<open>
  Claim C10. Every record that the multi-keyword fuzzy search returns carries a truthy
  \<^verbatim>\<open>_id\<close> or \<^verbatim>\<open>id\<close>. A matched record that has neither is dropped without a trace:
  the search returns (or raises) exactly what it does when no search result contains such a
  record, whether the cap \<^verbatim>\<open>top_k\<close> is reached or not.
\<close>

theorem fuzzy_union_carries_ids:
  "global_fuzzy_keyword_search config (\<lambda>c kw. without_idless (search c kw)) keywords top_k
     = global_fuzzy_keyword_search config search keywords top_k
   \<and> (\<forall>out. global_fuzzy_keyword_search config search keywords top_k = Inr out
          \<longrightarrow> (\<forall>r \<in> set out. carries_id r))"
proof -
  have "\<forall>r \<in> set out. carries_id r"
    if "global_fuzzy_keyword_search config search keywords top_k = Inr out" for out
  proof (cases config)
    case None
    with that show ?thesis by (simp add: global_fuzzy_keyword_search_def)
  next
    case (Some x)
    show ?thesis
    proof (cases x)
      case (Inl e)
      with Some that show ?thesis by (simp add: global_fuzzy_keyword_search_def)
    next
      case (Inr c)
      with Some that obtain so where
        k: "keyword_loop (search c) top_k ({}, [])
              (case keywords of None \<Rightarrow> [] | Some kws \<Rightarrow> kws) = Inr so"
        and out: "out = slice_to top_k (snd so)"
        by (auto simp: global_fuzzy_keyword_search_def split: sum.splits)
      from keyword_loop_carries_id [OF k] have "\<forall>x \<in> set (snd so). carries_id x" by simp
      with set_slice_to [of top_k "snd so"] out show ?thesis by blast
    qed
  qed
  then show ?thesis
    by (simp add: global_fuzzy_keyword_search_def keyword_loop_without_idless
             split: option.splits sum.splits)
qed

theorem fuzzy_union_carries_ids_witness:
  "global_fuzzy_keyword_search (Some (Inr ())) example_search (Some [''eeg'', '''', ''mouse'']) 20
     = Inr [PDict [(''_id'', PStr ''a''), (''title_guess'', PStr ''A'')],
            PDict [(''_id'', PStr ''''), (''id'', PStr ''c'')]]
   \<and> carries_id (PDict [(''_id'', PStr ''a''), (''title_guess'', PStr ''A'')])
   \<and> carries_id (PDict [(''_id'', PStr ''''), (''id'', PStr ''c'')])"
proof -
  have e: "global_fuzzy_keyword_search (Some (Inr ())) example_search
             (Some [''eeg'', '''', ''mouse'']) 20
     = Inr [PDict [(''_id'', PStr ''a''), (''title_guess'', PStr ''A'')],
            PDict [(''_id'', PStr ''''), (''id'', PStr ''c'')]]"
    by code_simp
  with fuzzy_union_carries_ids [of "Some (Inr ())" example_search "Some [''eeg'', '''', ''mouse'']" 20]
  show ?thesis by simp
qed

end
